theory Spec2Isabelle
  imports Main "HOL-Library.AList"
begin

section \<open>Python values, dictionaries and exceptions\<close>

text \<open>
  The gateway's responses and the request payloads are Python dictionaries
  (\<open>frappe._dict\<close>) holding decoded JSON. A value is \<open>None\<close>, an integer, a string, a
  datetime (only in the fields written to the credential store) or a nested dictionary;
  a dictionary is an association list in insertion order. JSON booleans, floats and
  arrays are left out: no field the code reads holds one. On these values Python's
  \<open>==\<close> against an integer or string literal is structural equality.
\<close>

datatype pyval =
    PNone
  | PInt int
  | PStr string
  | PDatetime int
  | PDict "(string \<times> pyval) list"

type_synonym dict = "(string \<times> pyval) list"

text \<open>Python truthiness (\<open>if x:\<close>, \<open>not x\<close>, \<open>x or y\<close>).\<close>

fun truthy :: "pyval \<Rightarrow> bool" where
  "truthy PNone = False"
| "truthy (PInt n) = (n \<noteq> 0)"
| "truthy (PStr s) = (s \<noteq> [])"
| "truthy (PDatetime t) = True"
| "truthy (PDict d) = (d \<noteq> [])"

text \<open>\<open>d.get(k)\<close> and attribute access \<open>d.k\<close> on a \<open>frappe._dict\<close>: a missing key reads as \<open>None\<close>.\<close>

definition dget :: "dict \<Rightarrow> string \<Rightarrow> pyval" where
  "dget d k = (case map_of d k of None \<Rightarrow> PNone | Some v \<Rightarrow> v)"

text \<open>\<open>d[k] = v\<close>: an existing key keeps its place, a new key goes last.\<close>

definition dset :: "dict \<Rightarrow> string \<Rightarrow> pyval \<Rightarrow> dict" where
  "dset d k v = AList.update k v d"

text \<open>\<open>d.pop(k)\<close>, for the dictionary that is left.\<close>

definition dpop :: "dict \<Rightarrow> string \<Rightarrow> dict" where
  "dpop d k = AList.delete k d"

text \<open>\<open>d.update(e)\<close> and \<open>{**d, **e}\<close>.\<close>

definition dupdate :: "dict \<Rightarrow> dict \<Rightarrow> dict" where
  "dupdate d e = fold (\<lambda>(k, v) acc. AList.update k v acc) e d"

text \<open>
  The exceptions of \<open>india_compliance.exceptions\<close> that the module raises, the
  \<open>ValidationError\<close> of \<open>frappe.throw\<close> with its message, and the errors of the
  interpreter and the collaborators.
\<close>

datatype exn =
    OTPRequestedError dict
  | InvalidOTPError dict
  | InvalidAuthTokenError
  | ValidationError pyval
  | AttributeError
  | TypeError
  | TransportError
  | DecryptionError
  | OverflowError

text \<open>\<open>x.encode()\<close>: only a string has the method.\<close>

fun encode :: "pyval \<Rightarrow> exn + string" where
  "encode (PStr s) = Inr s"
| "encode v = Inl AttributeError"

section \<open>Collaborators\<close>

text \<open>
  The functions imported from \<open>india_compliance.gst_india.utils.cryptography\<close>, from
  \<open>base64\<close>, \<open>cryptography.x509\<close> and \<open>frappe\<close> are parameters: encryption and hashing
  are total, decryption and parsing may raise. A key argument that can be \<open>None\<close>
  in the source is an option. \<open>as_json\<close> takes the indent; \<open>not_valid_after\<close> stands
  for loading a PEM certificate and reading its expiry.
\<close>

record lib =
  aes_decrypt_data :: "pyval \<Rightarrow> string option \<Rightarrow> exn + string"
  aes_encrypt_data :: "pyval \<Rightarrow> string \<Rightarrow> string"
  encrypt_using_public_key :: "string \<Rightarrow> string \<Rightarrow> string"
  hmac_sha256 :: "string \<Rightarrow> string option \<Rightarrow> string"
  b64encode :: "string \<Rightarrow> string"
  b64decode :: "string \<Rightarrow> exn + string"
  parse_json :: "string \<Rightarrow> exn + pyval"
  as_json :: "pyval \<Rightarrow> nat \<Rightarrow> string"
  cint :: "pyval \<Rightarrow> int"
  not_valid_after :: "string \<Rightarrow> exn + int"

datatype http_method = GET | POST | PUT

record http_request =
  req_method :: http_method
  req_endpoint :: string
  req_params :: dict
  req_headers :: dict
  req_json :: "dict option"

text \<open>A callback registered on the running job: the bound method \<open>self.reset_auth_token\<close>.\<close>

datatype callback = Reset_auth_token

text \<open>
  The state a call reads and writes: the fields of the API object (\<open>company_gstin\<close>,
  \<open>username\<close>, \<open>app_key\<close>, \<open>auth_token\<close>, \<open>session_key\<close>, \<open>session_expiry\<close>), the cached
  certificate of GST Settings, the GST Credential table keyed by (gstin, username,
  service), the running job's after-job callbacks (\<open>None\<close> outside a job), the cache
  (the expiry of its entries is left out), the clock (a datetime, in seconds since
  0001-01-01 00:00:00; it stands still during a call), \<open>frappe.flags.in_test\<close>, the number of commits and of
  document-cache clears, and the two servers: the responses the gateway will give
  to the next requests with the requests sent so far, and the same for the
  static certificate endpoint.
\<close>

record world =
  company_gstin :: string
  username :: string
  app_key :: string
  auth_token :: pyval
  session_key :: string
  session_expiry :: "int option"
  gstn_public_certificate :: pyval
  db :: "string \<times> string \<times> string \<Rightarrow> dict"
  after_job :: "callback list option"
  cache :: "(string \<times> bool) list"
  now :: int
  in_test :: bool
  commits :: nat
  document_cache_clears :: nat
  inbox :: "dict list"
  sent :: "http_request list"
  static_inbox :: "dict list"
  static_sent :: "string list"

text \<open>
  A Python datetime lies between 0001-01-01 and the end of 9999-12-31; in seconds
  since 0001-01-01 that is the range from 0 up to, not including, 3652059 days.
  \<open>add_to_date(None, minutes=n, as_datetime=True)\<close> of \<open>frappe.utils\<close> adds \<open>n\<close> minutes to
  the current datetime and raises \<open>OverflowError\<close> when the sum is no datetime.
\<close>

definition datetime_max :: int where
  "datetime_max = 3652059 * 86400"

definition add_to_date :: "int \<Rightarrow> int \<Rightarrow> exn + int" where
  "add_to_date date minutes =
     (let t = date + 60 * minutes
      in if 0 \<le> t \<and> t < datetime_max then Inr t else Inl OverflowError)"

text \<open>
  \<open>frappe.db.set_value("GST Credential", filters, vals)\<close>: a partial update of the
  record under the key; only the supplied fields change.
\<close>

definition db_set_value :: "string \<times> string \<times> string \<Rightarrow> dict \<Rightarrow> world \<Rightarrow> world" where
  "db_set_value key vals w = w\<lparr>db := (db w)(key := dupdate (db w key) vals)\<rparr>"

text \<open>
  Modelled from the spec: \<open>BaseAPI.get\<close> of the class \<open>PublicCertificate\<close>
  (\<open>api_classes/base.py\<close> is not among the sources). The static-file endpoint is a
  GET returning the parsed response; the transport raises when no response comes.
\<close>

definition static_get :: "string \<Rightarrow> world \<Rightarrow> (exn + dict) \<times> world" where
  "static_get endpoint w =
     (let w1 = w\<lparr>static_sent := static_sent w @ [endpoint]\<rparr> in
      case static_inbox w1 of
        [] \<Rightarrow> (Inl TransportError, w1)
      | response # rest \<Rightarrow> (Inr response, w1\<lparr>static_inbox := rest\<rparr>))"

section \<open>PublicCertificate\<close>

definition get_gstn_public_certificate :: "pyval \<Rightarrow> world \<Rightarrow> (exn + pyval) \<times> world" where
  "get_gstn_public_certificate error_message w =
     (case static_get ''gstn_g2b_prod_public'' w of
        (Inl e, w1) \<Rightarrow> (Inl e, w1)
      | (Inr response, w1) \<Rightarrow>
          if dget response ''certificate'' = gstn_public_certificate w1
          then (Inl (ValidationError
                  (if truthy error_message then error_message
                   else PStr ''Public Certificate is already up to date'')), w1)
          else (Inr (dget response ''certificate''),
                w1\<lparr>gstn_public_certificate := dget response ''certificate''\<rparr>))"

section \<open>TaxpayerAuthenticate\<close>

definition TaxpayerAuthenticate_IGNORED_ERROR_CODES :: "(string \<times> string) list" where
  "TaxpayerAuthenticate_IGNORED_ERROR_CODES =
     [(''RETOTPREQUEST'', ''otp_requested''),
      (''EVCREQUEST'', ''otp_requested''),
      (''AUTH158'', ''authorization_failed''),
      (''AUTH4033'', ''invalid_otp''),
      (''AUTH4038'', ''authorization_failed''),
      (''TEC4002'', ''invalid_public_key''),
      (''RET13506'', ''OTP is either expired or incorrect''),
      (''RET00003'', ''Return Form already ready to be filed''),
      (''RET09001'', ''Latest Summary is not available. Please generate summary and try again.'')]"

definition credential_filters :: "world \<Rightarrow> string \<times> string \<times> string" where
  "credential_filters w = (company_gstin w, username w, ''Returns'')"

definition get_auth_token :: "world \<Rightarrow> pyval" where
  "get_auth_token w =
     (if \<not> truthy (auth_token w) then PNone
      else case session_expiry w of
        None \<Rightarrow> PNone
      | Some expiry \<Rightarrow> if expiry \<le> now w then PNone else auth_token w)"

definition reset_auth_token :: "world \<Rightarrow> world" where
  "reset_auth_token w =
     (let w1 = db_set_value (credential_filters w) [(''auth_token'', PNone)] w in
      if \<not> in_test w1 then w1\<lparr>commits := Suc (commits w1)\<rparr> else w1)"

text \<open>What the job runner does with a registered callback once the job is over.\<close>

fun run_callback :: "callback \<Rightarrow> world \<Rightarrow> world" where
  "run_callback Reset_auth_token w = reset_auth_token w"

definition get_public_certificate :: "lib \<Rightarrow> world \<Rightarrow> (exn + string) \<times> world" where
  "get_public_certificate lib w =
     (case (if \<not> truthy (gstn_public_certificate w)
            then get_gstn_public_certificate PNone w
            else (Inr (gstn_public_certificate w), w)) of
        (Inl e, w1) \<Rightarrow> (Inl e, w1)
      | (Inr certificate, w1) \<Rightarrow>
          (case encode certificate of
             Inl e \<Rightarrow> (Inl e, w1)
           | Inr pem \<Rightarrow>
               (case not_valid_after lib pem of
                  Inl e \<Rightarrow> (Inl e, w1)
                | Inr valid_up_to \<Rightarrow>
                    (case (if valid_up_to < now w1
                           then get_gstn_public_certificate PNone w1
                           else (Inr certificate, w1)) of
                       (Inl e, w2) \<Rightarrow> (Inl e, w2)
                     | (Inr certificate', w2) \<Rightarrow>
                         (case encode certificate' of
                            Inl e \<Rightarrow> (Inl e, w2)
                          | Inr pem' \<Rightarrow> (Inr pem', w2))))))"

text \<open>
  \<open>TaxpayerAuthenticate.encrypt_request\<close> mutates the payload in place; the model
  returns the payload as it is afterwards.
\<close>

definition TaxpayerAuthenticate_encrypt_request ::
  "lib \<Rightarrow> dict option \<Rightarrow> world \<Rightarrow> (exn + dict option) \<times> world" where
  "TaxpayerAuthenticate_encrypt_request lib json w =
     (case json of
        None \<Rightarrow> (Inr None, w)
      | Some j \<Rightarrow>
          if j = [] then (Inr (Some j), w)
          else
            (case (if truthy (dget j ''app_key'')
                   then (if dget j ''action'' = PStr ''REFRESHTOKEN''
                         then (Inr (dset j ''app_key''
                                 (PStr (aes_encrypt_data lib (PStr (app_key w)) (session_key w)))), w)
                         else (case get_public_certificate lib w of
                                 (Inl e, w1) \<Rightarrow> (Inl e, w1)
                               | (Inr cert, w1) \<Rightarrow>
                                   (Inr (dset j ''app_key''
                                      (PStr (encrypt_using_public_key lib (app_key w) cert))), w1)))
                   else (Inr j, w)) of
               (Inl e, w1) \<Rightarrow> (Inl e, w1)
             | (Inr j1, w1) \<Rightarrow>
                 (Inr (Some (if truthy (dget j1 ''otp'')
                             then dset j1 ''otp''
                                    (PStr (aes_encrypt_data lib (dget j1 ''otp'') (app_key w1)))
                             else j1)), w1)))"

definition TaxpayerAuthenticate_decrypt_response ::
  "lib \<Rightarrow> dict \<Rightarrow> world \<Rightarrow> (exn + dict) \<times> world" where
  "TaxpayerAuthenticate_decrypt_response lib response w =
     (let (vals1, w1) =
            (if truthy (dget response ''auth_token'')
             then (dset [] ''auth_token'' (dget response ''auth_token''),
                   w\<lparr>auth_token := dget response ''auth_token''\<rparr>)
             else ([], w))
      in case (if truthy (dget response ''expiry'')
               then (case add_to_date (now w1) (cint lib (dget response ''expiry'')) of
                       Inl e \<Rightarrow> Inl e
                     | Inr expiry \<Rightarrow>
                         Inr (dset vals1 ''session_expiry'' (PDatetime expiry),
                              w1\<lparr>session_expiry := Some expiry\<rparr>))
               else Inr (vals1, w1)) of
           Inl e \<Rightarrow> (Inl e, w1)
         | Inr (vals2, w2) \<Rightarrow>
             (case (if truthy (dget response ''sek'')
                    then (case aes_decrypt_data lib (dget response ''sek'')
                                 (Some (app_key w2)) of
                            Inl e \<Rightarrow> Inl e
                          | Inr skey \<Rightarrow>
                              Inr (dset vals2 ''session_key'' (PStr (b64encode lib skey)),
                                   w2\<lparr>session_key := skey\<rparr>))
                    else Inr (vals2, w2)) of
                Inl e \<Rightarrow> (Inl e, w2)
              | Inr (vals3, w3) \<Rightarrow>
                  (Inr response,
                   if vals3 \<noteq> []
                   then (db_set_value (credential_filters w3) vals3 w3)
                          \<lparr>document_cache_clears := Suc (document_cache_clears w3)\<rparr>
                   else w3)))"

section \<open>TaxpayerBaseAPI\<close>

definition IGNORED_ERROR_CODES :: "(string \<times> string) list" where
  "IGNORED_ERROR_CODES =
     TaxpayerAuthenticate_IGNORED_ERROR_CODES @ [(''RT-R1R3BAV-1007'', ''authorization_failed'')]"

text \<open>\<open>response.get("error", {})\<close>, ready for the \<open>.get\<close> that follows it.\<close>

definition error_of :: "dict \<Rightarrow> exn + dict" where
  "error_of response =
     (case map_of response ''error'' of
        None \<Rightarrow> Inr []
      | Some (PDict d) \<Rightarrow> Inr d
      | Some v \<Rightarrow> Inl AttributeError)"

text \<open>
  \<open>is_ignored_error\<close> returns \<open>True\<close> or \<open>None\<close> and sets \<open>error_type\<close> and \<open>gstin\<close> on
  the response; the model returns the flag with the response as it is afterwards.
\<close>

definition is_ignored_error :: "dict \<Rightarrow> world \<Rightarrow> exn + bool \<times> dict" where
  "is_ignored_error response w =
     (case error_of response of
        Inl e \<Rightarrow> Inl e
      | Inr err \<Rightarrow>
          (case dget err ''error_cd'' of
             PDict d \<Rightarrow> Inl TypeError
           | PStr error_code \<Rightarrow>
               (case map_of IGNORED_ERROR_CODES error_code of
                  None \<Rightarrow> Inr (False, response)
                | Some error_type \<Rightarrow>
                    (let response1 =
                           dset (dset response ''error_type'' (PStr error_type))
                             ''gstin'' (PStr (company_gstin w))
                     in if error_type = ''otp_requested'' then Inl (OTPRequestedError response1)
                        else if error_type = ''invalid_otp'' then Inl (InvalidOTPError response1)
                        else Inr (True, response1)))
           | v \<Rightarrow> Inr (False, response)))"

definition handle_error_response :: "lib \<Rightarrow> dict \<Rightarrow> world \<Rightarrow> (exn + dict) \<times> world" where
  "handle_error_response lib response w =
     (let success_value = (dget response ''status_cd'' \<noteq> PInt 0) in
      case (if \<not> success_value
            then (case is_ignored_error response w of
                    Inl e \<Rightarrow> Inl e
                  | Inr (ignored, response1) \<Rightarrow>
                      if \<not> ignored
                      then (case error_of response1 of
                              Inl e \<Rightarrow> Inl e
                            | Inr err \<Rightarrow>
                                Inl (ValidationError
                                  (if truthy (dget err ''message'') then dget err ''message''
                                   else PStr (as_json lib (PDict response1) 4))))
                      else Inr response1)
            else Inr response) of
        Inl e \<Rightarrow> (Inl e, w)
      | Inr response1 \<Rightarrow>
          if dget response1 ''error_type'' = PStr ''invalid_public_key''
          then (case get_gstn_public_certificate
                       (PStr ''Looks like Public Key of GSTN used for encryption is Invalid'') w of
                  (Inl e, w1) \<Rightarrow> (Inl e, w1)
                | (Inr certificate, w1) \<Rightarrow> (Inr response1, w1))
          else (Inr response1, w))"

definition decrypt_response :: "lib \<Rightarrow> dict \<Rightarrow> world \<Rightarrow> (exn + dict) \<times> world" where
  "decrypt_response lib response w =
     (if truthy (dget response ''auth_token'')
      then TaxpayerAuthenticate_decrypt_response lib response w
      else
        (case (if truthy (dget response ''rek'')
               then (case aes_decrypt_data lib (dget response ''rek'') (Some (session_key w)) of
                       Inl e \<Rightarrow> Inl e
                     | Inr k \<Rightarrow> Inr (Some k))
               else Inr None) of
           Inl e \<Rightarrow> (Inl e, w)
         | Inr decrypted_rek \<Rightarrow>
             if truthy (dget response ''data'')
             then (case aes_decrypt_data lib (dget response ''data'') decrypted_rek of
                     Inl e \<Rightarrow> (Inl e, w)
                   | Inr decrypted_data \<Rightarrow>
                       (let response1 = dpop response ''data'' in
                        if truthy (dget response1 ''hmac'')
                           \<and> PStr (hmac_sha256 lib decrypted_data decrypted_rek)
                               \<noteq> dget response1 ''hmac''
                        then (Inl (ValidationError (PStr ''HMAC mismatch'')), w)
                        else (case b64decode lib decrypted_data of
                                Inl e \<Rightarrow> (Inl e, w)
                              | Inr decoded \<Rightarrow>
                                  (case parse_json lib decoded of
                                     Inl e \<Rightarrow> (Inl e, w)
                                   | Inr parsed \<Rightarrow>
                                       (Inr (dset response1 ''result'' parsed), w)))))
             else (Inr response, w)))"

definition encrypt_request :: "lib \<Rightarrow> dict option \<Rightarrow> world \<Rightarrow> (exn + dict option) \<times> world" where
  "encrypt_request lib json w =
     (case json of
        None \<Rightarrow> (Inr None, w)
      | Some j \<Rightarrow>
          if j = [] then (Inr (Some j), w)
          else
            (case TaxpayerAuthenticate_encrypt_request lib (Some j) w of
               (Inl e, w1) \<Rightarrow> (Inl e, w1)
             | (Inr None, w1) \<Rightarrow> (Inr None, w1)
             | (Inr (Some j1), w1) \<Rightarrow>
                 if truthy (dget j1 ''data'')
                 then (let b64_data = b64encode lib (as_json lib (dget j1 ''data'') 1);
                           j2 = dset j1 ''data''
                                  (PStr (aes_encrypt_data lib (PStr b64_data) (session_key w1)))
                       in if dget j2 ''st'' = PStr ''EVC''
                          then (case encode (dget j2 ''sid'') of
                                  Inl e \<Rightarrow> (Inl e, w1)
                                | Inr sid_key \<Rightarrow>
                                    (Inr (Some (dset j2 ''sign''
                                       (PStr (hmac_sha256 lib b64_data (Some sid_key))))), w1))
                          else (Inr (Some (dset j2 ''hmac''
                                  (PStr (hmac_sha256 lib b64_data (Some (session_key w1)))))), w1))
                 else (Inr (Some j1), w1)))"

definition before_request :: "lib \<Rightarrow> dict option \<Rightarrow> world \<Rightarrow> (exn + dict option) \<times> world" where
  "before_request lib json w = encrypt_request lib json w"

definition process_response :: "lib \<Rightarrow> dict \<Rightarrow> world \<Rightarrow> (exn + dict) \<times> world" where
  "process_response lib response w =
     (case handle_error_response lib response w of
        (Inl e, w1) \<Rightarrow> (Inl e, w1)
      | (Inr response1, w1) \<Rightarrow> decrypt_response lib response1 w1)"

text \<open>
  Modelled from the spec: \<open>BaseAPI.get\<close>, \<open>post\<close> and \<open>put\<close>, which the classes reach
  through \<open>super()\<close> (\<open>api_classes/base.py\<close> is not among the sources). The transport
  runs the \<open>before_request\<close> hook on the payload, sends the request, takes the
  gateway's parsed response (raising when none comes) and returns what the
  \<open>process_response\<close> hook makes of it. The request is logged as it was sent.
\<close>

definition make_request ::
  "lib \<Rightarrow> http_method \<Rightarrow> string \<Rightarrow> dict \<Rightarrow> dict \<Rightarrow> dict option \<Rightarrow> world \<Rightarrow> (exn + dict) \<times> world" where
  "make_request lib method endpoint params headers json w =
     (case before_request lib json w of
        (Inl e, w1) \<Rightarrow> (Inl e, w1)
      | (Inr json1, w1) \<Rightarrow>
          (let w2 = w1\<lparr>sent := sent w1 @
                      [\<lparr>req_method = method, req_endpoint = endpoint, req_params = params,
                        req_headers = headers, req_json = json1\<rparr>]\<rparr>
           in case inbox w2 of
                [] \<Rightarrow> (Inl TransportError, w2)
              | response # rest \<Rightarrow> process_response lib response (w2\<lparr>inbox := rest\<rparr>)))"

section \<open>The authentication flow\<close>

definition request_otp :: "lib \<Rightarrow> world \<Rightarrow> (exn + dict option) \<times> world" where
  "request_otp lib w =
     (case make_request lib POST ''authenticate'' [] []
             (Some [(''action'', PStr ''OTPREQUEST''),
                    (''app_key'', PStr (app_key w)),
                    (''username'', PStr (username w))]) w of
        (Inl e, w1) \<Rightarrow> (Inl e, w1)
      | (Inr response, w1) \<Rightarrow>
          if dget response ''status_cd'' \<noteq> PInt 1 then (Inr None, w1)
          else (Inl (OTPRequestedError
                  (dupdate response
                     [(''error_type'', PStr ''otp_requested''),
                      (''gstin'', PStr (company_gstin w1))])), w1))"

definition autheticate_with_otp :: "lib \<Rightarrow> pyval \<Rightarrow> world \<Rightarrow> (exn + dict option) \<times> world" where
  "autheticate_with_otp lib otp w =
     (if \<not> truthy otp
      then (case after_job w of
              Some callbacks \<Rightarrow>
                (Inl InvalidAuthTokenError, w\<lparr>after_job := Some (callbacks @ [Reset_auth_token])\<rparr>)
            | None \<Rightarrow>
                request_otp lib
                  ((db_set_value (credential_filters w) [(''auth_token'', PNone)] w)
                     \<lparr>auth_token := PNone\<rparr>))
      else (case make_request lib POST ''authenticate'' [] []
                   (Some [(''action'', PStr ''AUTHTOKEN''),
                          (''app_key'', PStr (app_key w)),
                          (''username'', PStr (username w)),
                          (''otp'', otp)]) w of
              (Inl e, w1) \<Rightarrow> (Inl e, w1)
            | (Inr response, w1) \<Rightarrow>
                (Inr (Some response),
                 w1\<lparr>cache := AList.update (''authenticated_gstin:'' @ company_gstin w1) True
                                (cache w1)\<rparr>)))"

definition refresh_auth_token :: "lib \<Rightarrow> world \<Rightarrow> (exn + dict option) \<times> world" where
  "refresh_auth_token lib w =
     (let token = get_auth_token w in
      if \<not> truthy token then (Inr None, w)
      else (case make_request lib POST ''authenticate'' [] []
                   (Some [(''action'', PStr ''REFRESHTOKEN''),
                          (''app_key'', PStr (app_key w)),
                          (''username'', PStr (username w)),
                          (''auth_token'', token)]) w of
              (Inl e, w1) \<Rightarrow> (Inl e, w1)
            | (Inr response, w1) \<Rightarrow> (Inr (Some response), w1)))"

text \<open>
  The decorator \<open>otp_handler\<close>: the two OTP exceptions become the wrapped function's
  return value, every other exception is raised again.
\<close>

definition otp_handler ::
  "(world \<Rightarrow> (exn + dict option) \<times> world) \<Rightarrow> world \<Rightarrow> (exn + dict option) \<times> world" where
  "otp_handler func w =
     (case func w of
        (Inl (OTPRequestedError response), w1) \<Rightarrow> (Inr (Some response), w1)
      | (Inl (InvalidOTPError response), w1) \<Rightarrow> (Inr (Some response), w1)
      | (Inl e, w1) \<Rightarrow> (Inl e, w1)
      | (Inr r, w1) \<Rightarrow> (Inr r, w1))"

section \<open>The request pipeline\<close>

text \<open>The headers \<open>_request\<close> builds, and its \<open>params\<close> argument to the transport.\<close>

definition request_headers :: "pyval \<Rightarrow> pyval \<Rightarrow> pyval \<Rightarrow> dict" where
  "request_headers token return_type return_period =
     (let headers = [(''auth-token'', token)];
          headers1 = (if truthy return_type
                      then dset (dset headers ''rtn_typ'' return_type) ''userrole'' return_type
                      else headers)
      in if truthy return_period then dset headers1 ''ret_period'' return_period else headers1)"

definition request_params :: "pyval \<Rightarrow> dict option \<Rightarrow> dict" where
  "request_params action params =
     dupdate [(''action'', action)]
       (case params of None \<Rightarrow> [] | Some p \<Rightarrow> p)"

text \<open>\<open>TaxpayerBaseAPI._request\<close>; a result \<open>None\<close> is Python's \<open>None\<close>.\<close>

definition request ::
  "lib \<Rightarrow> http_method \<Rightarrow> pyval \<Rightarrow> pyval \<Rightarrow> pyval \<Rightarrow> dict option \<Rightarrow> string \<Rightarrow> dict option
     \<Rightarrow> pyval \<Rightarrow> world \<Rightarrow> (exn + dict option) \<times> world" where
  "request lib method action return_type return_period params endpoint json otp w =
     (let token = get_auth_token w;
          business = (\<lambda>w1.
            case make_request lib method endpoint (request_params action params)
                   (request_headers token return_type return_period) json w1 of
              (Inl e, w2) \<Rightarrow> (Inl e, w2)
            | (Inr response, w2) \<Rightarrow>
                if dget response ''error_type'' = PStr ''authorization_failed''
                then autheticate_with_otp lib PNone w2
                else (Inr (Some response), w2))
      in if \<not> truthy token \<or> truthy otp
         then (case autheticate_with_otp lib otp w of
                 (Inl e, w1) \<Rightarrow> (Inl e, w1)
               | (Inr None, w1) \<Rightarrow> (Inl AttributeError, w1)
               | (Inr (Some response), w1) \<Rightarrow>
                   if dget response ''error_type'' = PStr ''otp_requested''
                      \<or> dget response ''error_type'' = PStr ''invalid_otp''
                   then (Inr (Some response), w1)
                   else business w1)
         else business w)"

definition get ::
  "lib \<Rightarrow> pyval \<Rightarrow> pyval \<Rightarrow> pyval \<Rightarrow> dict \<Rightarrow> string \<Rightarrow> dict option \<Rightarrow> pyval \<Rightarrow> world
     \<Rightarrow> (exn + dict option) \<times> world" where
  "get lib action return_type return_period params endpoint json otp w =
     request lib GET action return_type return_period
       (Some (dupdate [(''gstin'', PStr (company_gstin w))] params)) endpoint json otp w"

definition post ::
  "lib \<Rightarrow> pyval \<Rightarrow> pyval \<Rightarrow> pyval \<Rightarrow> dict option \<Rightarrow> string \<Rightarrow> dict option \<Rightarrow> pyval \<Rightarrow> world
     \<Rightarrow> (exn + dict option) \<times> world" where
  "post lib action return_type return_period params endpoint json otp w =
     request lib POST action return_type return_period params endpoint json otp w"

definition put ::
  "lib \<Rightarrow> pyval \<Rightarrow> pyval \<Rightarrow> pyval \<Rightarrow> dict option \<Rightarrow> string \<Rightarrow> dict option \<Rightarrow> pyval \<Rightarrow> world
     \<Rightarrow> (exn + dict option) \<times> world" where
  "put lib action return_type return_period params endpoint json otp w =
     request lib PUT action return_type return_period params endpoint json otp w"

section \<open>Observations on states and requests\<close>

text \<open>
  Two relations between the state before and after a step, used to say what a
  step leaves alone. A certificate step (a fetch from the static endpoint) may
  change the cached certificate and the static endpoint's queues only. A session
  step (storing a rotated token) may change the token, the session key, its
  expiry, the credential table and the count of document-cache clears only.
\<close>

definition certificate_frame :: "world \<Rightarrow> world \<Rightarrow> bool" where
  "certificate_frame w w' \<longleftrightarrow>
     company_gstin w' = company_gstin w \<and> username w' = username w
     \<and> app_key w' = app_key w \<and> auth_token w' = auth_token w
     \<and> session_key w' = session_key w \<and> session_expiry w' = session_expiry w
     \<and> db w' = db w \<and> after_job w' = after_job w \<and> cache w' = cache w
     \<and> now w' = now w \<and> in_test w' = in_test w \<and> commits w' = commits w
     \<and> document_cache_clears w' = document_cache_clears w
     \<and> inbox w' = inbox w \<and> sent w' = sent w"

definition session_frame :: "world \<Rightarrow> world \<Rightarrow> bool" where
  "session_frame w w' \<longleftrightarrow>
     company_gstin w' = company_gstin w \<and> username w' = username w
     \<and> app_key w' = app_key w \<and> after_job w' = after_job w \<and> cache w' = cache w
     \<and> now w' = now w \<and> in_test w' = in_test w \<and> commits w' = commits w
     \<and> inbox w' = inbox w \<and> sent w' = sent w
     \<and> gstn_public_certificate w' = gstn_public_certificate w
     \<and> static_inbox w' = static_inbox w \<and> static_sent w' = static_sent w"

text \<open>A logged request that asks the gateway to send an OTP.\<close>

definition is_otp_request :: "http_request \<Rightarrow> bool" where
  "is_otp_request q \<longleftrightarrow>
     req_method q = POST \<and> req_endpoint q = ''authenticate''
     \<and> (case req_json q of None \<Rightarrow> False | Some j \<Rightarrow> dget j ''action'' = PStr ''OTPREQUEST'')"

section \<open>Concrete inputs\<close>

text \<open>
  Stand-ins for the collaborators and a starting state, for evaluating the
  definitions on concrete inputs: encryption prefixes the key, decryption strips it
  (and fails on another key), the MAC is the key followed by the data.
\<close>

definition example_lib :: lib where
  "example_lib =
     \<lparr>aes_decrypt_data = (\<lambda>c k. case (c, k) of
          (PStr s, Some key) \<Rightarrow>
            if take (length key) s = key then Inr (drop (length key) s) else Inl DecryptionError
        | (v, k') \<Rightarrow> Inl DecryptionError),
      aes_encrypt_data = (\<lambda>p k. case p of PStr s \<Rightarrow> k @ s | v \<Rightarrow> k),
      encrypt_using_public_key = (\<lambda>p cert. cert @ p),
      hmac_sha256 = (\<lambda>d k. case k of Some key \<Rightarrow> key @ d | None \<Rightarrow> d),
      b64encode = (\<lambda>s. s),
      b64decode = (\<lambda>s. Inr s),
      parse_json = (\<lambda>s. Inr (PStr s)),
      as_json = (\<lambda>v n. ''{}''),
      cint = (\<lambda>v. case v of PInt n \<Rightarrow> n | v' \<Rightarrow> 0),
      not_valid_after = (\<lambda>pem. Inr 1000)\<rparr>"

definition example_world :: world where
  "example_world =
     \<lparr>company_gstin = ''24AAUPV7468F1ZW'', username = ''admin'', app_key = ''K'',
      auth_token = PStr ''TOKEN'', session_key = ''S'', session_expiry = Some 500,
      gstn_public_certificate = PStr ''CERT'', db = (\<lambda>k. []), after_job = None,
      cache = [], now = 100, in_test = False, commits = 0, document_cache_clears = 0,
      inbox = [], sent = [], static_inbox = [], static_sent = []\<rparr>"

section \<open>Properties\<close>

subsection \<open>Dictionaries\<close>

lemma dget_dset: "dget (dset d k v) k' = (if k' = k then v else dget d k')"
  by (simp add: dget_def dset_def update_conv')

lemma dget_dpop: "dget (dpop d k) k' = (if k' = k then PNone else dget d k')"
  by (simp add: dget_def dpop_def delete_conv')

lemma dget_Nil: "dget [] k = PNone"
  by (simp add: dget_def)

lemma dget_dupdate_Cons: "dget (dupdate d ((k, v) # e)) k' = dget (dupdate (dset d k v) e) k'"
  by (simp add: dupdate_def dset_def)

lemma dupdate_Nil: "dupdate d [] = d"
  by (simp add: dupdate_def)


subsection \<open>The auth token is valid only before its expiry\<close>

text \<open>
  Claim C3. For every credential state, \<open>get_auth_token\<close> returns the stored token
  exactly when the token is present (truthy), \<open>session_expiry\<close> is present and the
  current time is strictly before it; in every other case (no token, no expiry, or
  current time at or past the expiry) it returns \<open>None\<close>.
\<close>

theorem get_auth_token_only_before_expiry:
  "get_auth_token w =
     (if truthy (auth_token w) \<and> (\<exists>expiry. session_expiry w = Some expiry \<and> now w < expiry)
      then auth_token w else PNone)"
  by (auto simp: get_auth_token_def split: option.splits)

subsection \<open>A refetched certificate that is unchanged is an error\<close>

text \<open>
  Claim C9. When the static endpoint answers a certificate fetch, the fetch is made
  once. If the fetched certificate equals the cached one, the call raises a
  \<open>ValidationError\<close> with the caller's message (or the default one) and the
  settings keep their value; if it differs, the new certificate is stored in the
  settings and returned.
\<close>

theorem get_gstn_public_certificate_unchanged_raises:
  assumes "static_inbox w = response # rest"
  shows "get_gstn_public_certificate error_message w =
     (if dget response ''certificate'' = gstn_public_certificate w
      then (Inl (ValidationError
                  (if truthy error_message then error_message
                   else PStr ''Public Certificate is already up to date'')),
            w\<lparr>static_sent := static_sent w @ [''gstn_g2b_prod_public''], static_inbox := rest\<rparr>)
      else (Inr (dget response ''certificate''),
            w\<lparr>static_sent := static_sent w @ [''gstn_g2b_prod_public''], static_inbox := rest,
              gstn_public_certificate := dget response ''certificate''\<rparr>))"
  using assms by (simp add: get_gstn_public_certificate_def static_get_def Let_def)

theorem get_gstn_public_certificate_unchanged_raises_witness:
  "static_inbox (example_world\<lparr>static_inbox := [[(''certificate'', PStr ''CERT'')]]\<rparr>)
     = [(''certificate'', PStr ''CERT'')] # []
   \<and> fst (get_gstn_public_certificate PNone
            (example_world\<lparr>static_inbox := [[(''certificate'', PStr ''CERT'')]]\<rparr>))
     = Inl (ValidationError (PStr ''Public Certificate is already up to date''))
   \<and> gstn_public_certificate (snd (get_gstn_public_certificate PNone
            (example_world\<lparr>static_inbox := [[(''certificate'', PStr ''CERT'')]]\<rparr>)))
     = PStr ''CERT''
   \<and> static_sent (snd (get_gstn_public_certificate PNone
            (example_world\<lparr>static_inbox := [[(''certificate'', PStr ''CERT'')]]\<rparr>)))
     = [''gstn_g2b_prod_public'']
   \<and> fst (get_gstn_public_certificate PNone
            (example_world\<lparr>static_inbox := [[(''certificate'', PStr ''NEW'')]]\<rparr>))
     = Inr (PStr ''NEW'')
   \<and> gstn_public_certificate (snd (get_gstn_public_certificate PNone
            (example_world\<lparr>static_inbox := [[(''certificate'', PStr ''NEW'')]]\<rparr>)))
     = PStr ''NEW''"
  using get_gstn_public_certificate_unchanged_raises
          [of "example_world\<lparr>static_inbox := [[(''certificate'', PStr ''CERT'')]]\<rparr>"
              "[(''certificate'', PStr ''CERT'')]" "[]" PNone]
        get_gstn_public_certificate_unchanged_raises
          [of "example_world\<lparr>static_inbox := [[(''certificate'', PStr ''NEW'')]]\<rparr>"
              "[(''certificate'', PStr ''NEW'')]" "[]" PNone]
  by (simp add: example_world_def dget_def)

subsection \<open>An unrecognised error code is fatal\<close>

text \<open>
  What \<open>handle_error_response\<close> does on a response with a non-success status
  (\<open>status_cd == 0\<close>) whose error code is not a key of \<open>IGNORED_ERROR_CODES\<close>: it always
  raises, and when the \<open>error\<close> field is absent or an object and the code is
  hashable, the exception is the \<open>ValidationError\<close> of \<open>frappe.throw\<close> whose message
  is the gateway's \<open>error.message\<close> when that is truthy, and the response body as
  JSON otherwise.
\<close>

lemma handle_error_response_unrecognised_raises:
  assumes "dget response ''status_cd'' = PInt 0"
    and "\<And>err code. error_of response = Inr err \<Longrightarrow> dget err ''error_cd'' = PStr code
           \<Longrightarrow> map_of IGNORED_ERROR_CODES code = None"
  shows "\<exists>e. handle_error_response lib response w = (Inl e, w)
           \<and> (\<forall>err. error_of response = Inr err \<longrightarrow> (\<forall>d. dget err ''error_cd'' \<noteq> PDict d)
                \<longrightarrow> e = ValidationError
                      (if truthy (dget err ''message'') then dget err ''message''
                       else PStr (as_json lib (PDict response) 4)))"
  using assms
  by (auto simp: handle_error_response_def is_ignored_error_def Let_def
           split: pyval.splits option.splits sum.splits)

lemma handle_error_response_unrecognised_example:
  "dget [(''status_cd'', PInt 0),
         (''error'', PDict [(''message'', PStr ''Invalid request''), (''error_cd'', PStr ''XYZ999'')])]
        ''status_cd'' = PInt 0
   \<and> map_of IGNORED_ERROR_CODES ''XYZ999'' = None
   \<and> handle_error_response example_lib
        [(''status_cd'', PInt 0),
         (''error'', PDict [(''message'', PStr ''Invalid request''), (''error_cd'', PStr ''XYZ999'')])]
        example_world
      = (Inl (ValidationError (PStr ''Invalid request'')), example_world)
   \<and> handle_error_response example_lib
        [(''status_cd'', PInt 0), (''error'', PDict [(''error_cd'', PStr ''XYZ999'')])]
        example_world
      = (Inl (ValidationError (PStr ''{}'')), example_world)"
proof -
  let ?R = "[(''status_cd'', PInt 0),
             (''error'', PDict [(''message'', PStr ''Invalid request''), (''error_cd'', PStr ''XYZ999'')])]"
  let ?Q = "[(''status_cd'', PInt 0), (''error'', PDict [(''error_cd'', PStr ''XYZ999'')])]"
  have table: "map_of IGNORED_ERROR_CODES ''XYZ999'' = None"
    by (simp add: IGNORED_ERROR_CODES_def TaxpayerAuthenticate_IGNORED_ERROR_CODES_def)
  have r1: "dget ?R ''status_cd'' = PInt 0" and q1: "dget ?Q ''status_cd'' = PInt 0"
    by (simp_all add: dget_def)
  have r2: "map_of IGNORED_ERROR_CODES code = None"
    if "error_of ?R = Inr err" "dget err ''error_cd'' = PStr code" for err code
    using that table by (auto simp: error_of_def dget_def)
  have q2: "map_of IGNORED_ERROR_CODES code = None"
    if "error_of ?Q = Inr err" "dget err ''error_cd'' = PStr code" for err code
    using that table by (auto simp: error_of_def dget_def)
  have r3: "handle_error_response example_lib ?R example_world
      = (Inl (ValidationError (PStr ''Invalid request'')), example_world)"
    using handle_error_response_unrecognised_raises [OF r1 r2, where lib = example_lib and w = example_world]
    by (auto simp: error_of_def dget_def)
  have q3: "handle_error_response example_lib ?Q example_world
      = (Inl (ValidationError (PStr ''{}'')), example_world)"
    using handle_error_response_unrecognised_raises [OF q1 q2, where lib = example_lib and w = example_world]
    by (auto simp: error_of_def dget_def example_lib_def)
  show ?thesis using r1 table r3 q3 by simp
qed

text \<open>
  Claim C7 says that every such response fails with the gateway's structured
  message, or with the raw response body when there is no structured message; the
  source says the same of itself (\<open>.get("error", {})\<close>, and the comment "Fallback to
  response body if message is not present"). The code misses the responses whose
  \<open>error\<close> field is there but is no object: with \<open>"error": null\<close> or a string there is
  no structured message, yet \<open>is_ignored_error\<close> calls \<open>.get\<close> on the field and the
  call ends in \<open>AttributeError\<close> before \<open>frappe.throw\<close> is reached; with an object for
  \<open>error_cd\<close> the table lookup ends in \<open>TypeError\<close>. Neither carries the message or the
  response body.
\<close>

theorem handle_error_response_malformed_error_no_fallback:
  "dget [(''status_cd'', PInt 0), (''error'', PNone)] ''status_cd'' = PInt 0
   \<and> handle_error_response example_lib [(''status_cd'', PInt 0), (''error'', PNone)] example_world
       = (Inl AttributeError, example_world)
   \<and> handle_error_response example_lib
         [(''status_cd'', PInt 0), (''error'', PStr ''Service unavailable'')] example_world
       = (Inl AttributeError, example_world)
   \<and> handle_error_response example_lib
         [(''status_cd'', PInt 0),
          (''error'', PDict [(''message'', PStr ''Invalid request''),
                             (''error_cd'', PDict [(''code'', PStr ''XYZ999'')])])] example_world
       = (Inl TypeError, example_world)"
  by (simp add: handle_error_response_def is_ignored_error_def error_of_def dget_def Let_def)

subsection \<open>A wrong HMAC is fatal\<close>




subsection \<open>An authentication response is persisted before it is returned\<close>




subsection \<open>The app key is encrypted by action\<close>

text \<open>
  Claim C5. For every payload that carries an \<open>app_key\<close>,
  \<open>TaxpayerAuthenticate.encrypt_request\<close> replaces it with the app key encrypted
  under the session key when the action is \<open>REFRESHTOKEN\<close>, and for every other
  action with the app key encrypted under the public certificate that
  \<open>get_public_certificate\<close> returns (raising what that call raises).
\<close>

theorem encrypt_request_app_key:
  assumes "truthy (dget j ''app_key'')"
  shows "(dget j ''action'' = PStr ''REFRESHTOKEN'' \<longrightarrow>
            (\<exists>j'. TaxpayerAuthenticate_encrypt_request lib (Some j) w = (Inr (Some j'), w)
               \<and> dget j' ''app_key''
                   = PStr (aes_encrypt_data lib (PStr (app_key w)) (session_key w))))
       \<and> (dget j ''action'' \<noteq> PStr ''REFRESHTOKEN'' \<longrightarrow>
            (case get_public_certificate lib w of
               (Inl e, w1) \<Rightarrow> TaxpayerAuthenticate_encrypt_request lib (Some j) w = (Inl e, w1)
             | (Inr cert, w1) \<Rightarrow>
                 (\<exists>j'. TaxpayerAuthenticate_encrypt_request lib (Some j) w = (Inr (Some j'), w1)
                    \<and> dget j' ''app_key''
                        = PStr (encrypt_using_public_key lib (app_key w) cert))))"
proof -
  from assms have "j \<noteq> []" by (auto simp: dget_def)
  then show ?thesis using assms
    by (auto simp: TaxpayerAuthenticate_encrypt_request_def dget_dset split: prod.splits sum.splits)
qed

theorem encrypt_request_app_key_witness:
  "truthy (dget [(''action'', PStr ''REFRESHTOKEN''), (''app_key'', PStr ''K''),
                 (''username'', PStr ''admin''), (''auth_token'', PStr ''TOKEN'')] ''app_key'')
   \<and> (\<exists>j'. TaxpayerAuthenticate_encrypt_request example_lib
               (Some [(''action'', PStr ''REFRESHTOKEN''), (''app_key'', PStr ''K''),
                      (''username'', PStr ''admin''), (''auth_token'', PStr ''TOKEN'')]) example_world
             = (Inr (Some j'), example_world)
           \<and> dget j' ''app_key'' = PStr ''SK'')
   \<and> get_public_certificate example_lib example_world = (Inr ''CERT'', example_world)
   \<and> (\<exists>j'. TaxpayerAuthenticate_encrypt_request example_lib
               (Some [(''action'', PStr ''AUTHTOKEN''), (''app_key'', PStr ''K''),
                      (''username'', PStr ''admin''), (''otp'', PStr ''123456'')]) example_world
             = (Inr (Some j'), example_world)
           \<and> dget j' ''app_key'' = PStr ''CERTK'')"
proof -
  have cert: "get_public_certificate example_lib example_world = (Inr ''CERT'', example_world)"
    by (simp add: get_public_certificate_def example_lib_def example_world_def)
  let ?J = "[(''action'', PStr ''REFRESHTOKEN''), (''app_key'', PStr ''K''),
             (''username'', PStr ''admin''), (''auth_token'', PStr ''TOKEN'')]"
  let ?A = "[(''action'', PStr ''AUTHTOKEN''), (''app_key'', PStr ''K''),
             (''username'', PStr ''admin''), (''otp'', PStr ''123456'')]"
  have j: "truthy (dget ?J ''app_key'')" "dget ?J ''action'' = PStr ''REFRESHTOKEN''"
    and a: "truthy (dget ?A ''app_key'')" "dget ?A ''action'' \<noteq> PStr ''REFRESHTOKEN''"
    by (simp_all add: dget_def)
  have env: "aes_encrypt_data example_lib (PStr (app_key example_world)) (session_key example_world)
               = ''SK''"
    "encrypt_using_public_key example_lib (app_key example_world) ''CERT'' = ''CERTK''"
    by (simp_all add: example_lib_def example_world_def)
  from encrypt_request_app_key [of ?J example_lib example_world, OF j(1)] j(2)
  have refresh: "\<exists>j'. TaxpayerAuthenticate_encrypt_request example_lib (Some ?J) example_world
             = (Inr (Some j'), example_world) \<and> dget j' ''app_key'' = PStr ''SK''"
    unfolding env by blast
  from encrypt_request_app_key [of ?A example_lib example_world, OF a(1)] a(2)
  have otp: "\<exists>j'. TaxpayerAuthenticate_encrypt_request example_lib (Some ?A) example_world
             = (Inr (Some j'), example_world) \<and> dget j' ''app_key'' = PStr ''CERTK''"
    by (simp add: cert env)
  show ?thesis using j(1) refresh cert otp by blast
qed

subsection \<open>What each step leaves alone\<close>

lemma certificate_frame_refl: "certificate_frame w w"
  by (simp add: certificate_frame_def)

lemma certificate_frame_trans:
  "certificate_frame w w1 \<Longrightarrow> certificate_frame w1 w2 \<Longrightarrow> certificate_frame w w2"
  by (simp add: certificate_frame_def)

lemma static_get_frame: "static_get endpoint w = (r, w') \<Longrightarrow> certificate_frame w w'"
  by (auto simp: static_get_def Let_def certificate_frame_def split: list.splits)

lemma get_gstn_public_certificate_frame:
  "get_gstn_public_certificate m w = (r, w') \<Longrightarrow> certificate_frame w w'"
  by (auto simp: get_gstn_public_certificate_def certificate_frame_def
           dest!: static_get_frame split: prod.splits sum.splits if_splits)

lemma get_public_certificate_frame:
  assumes "get_public_certificate lib w = (r, w')"
  shows "certificate_frame w w'"
proof -
  obtain r1 w1 where first:
    "(if \<not> truthy (gstn_public_certificate w) then get_gstn_public_certificate PNone w
      else (Inr (gstn_public_certificate w), w)) = (r1, w1)"
    by (cases "(if \<not> truthy (gstn_public_certificate w) then get_gstn_public_certificate PNone w
      else (Inr (gstn_public_certificate w), w))") auto
  then have f1: "certificate_frame w w1"
    by (auto simp: certificate_frame_refl dest: get_gstn_public_certificate_frame split: if_splits)
  have "certificate_frame w1 w'"
    using assms first
    by (auto simp: get_public_certificate_def certificate_frame_refl
          dest: get_gstn_public_certificate_frame split: prod.splits sum.splits if_splits)
  with f1 show ?thesis by (rule certificate_frame_trans)
qed

lemma TaxpayerAuthenticate_encrypt_request_frame:
  "TaxpayerAuthenticate_encrypt_request lib json w = (r, w') \<Longrightarrow> certificate_frame w w'"
  by (auto simp: TaxpayerAuthenticate_encrypt_request_def certificate_frame_refl
        dest: get_public_certificate_frame split: option.splits prod.splits sum.splits if_splits)

lemma encrypt_request_frame:
  "encrypt_request lib json w = (r, w') \<Longrightarrow> certificate_frame w w'"
  by (auto simp: encrypt_request_def certificate_frame_refl Let_def
        dest: TaxpayerAuthenticate_encrypt_request_frame
        split: option.splits prod.splits sum.splits if_splits)

lemma handle_error_response_frame:
  "handle_error_response lib response w = (r, w') \<Longrightarrow> certificate_frame w w'"
  by (auto simp: handle_error_response_def certificate_frame_refl Let_def
        dest: get_gstn_public_certificate_frame
        split: option.splits prod.splits sum.splits if_splits)


lemma session_frame_refl: "session_frame w w"
  by (simp add: session_frame_def)

lemma TaxpayerAuthenticate_decrypt_response_frame:
  "TaxpayerAuthenticate_decrypt_response lib response w = (r, w') \<Longrightarrow> session_frame w w'"
  by (auto simp: TaxpayerAuthenticate_decrypt_response_def session_frame_def Let_def
        db_set_value_def split: sum.splits if_splits)

lemma TaxpayerAuthenticate_decrypt_response_token:
  "TaxpayerAuthenticate_decrypt_response lib response w = (Inr r, w') \<Longrightarrow>
   truthy (dget response ''auth_token'') \<Longrightarrow>
   r = response \<and> auth_token w' = dget response ''auth_token''"
  by (auto simp: TaxpayerAuthenticate_decrypt_response_def Let_def
        db_set_value_def split: sum.splits if_splits)

lemma decrypt_response_frame:
  "decrypt_response lib response w = (r, w') \<Longrightarrow> session_frame w w'"
  by (auto simp: decrypt_response_def session_frame_refl Let_def
        dest: TaxpayerAuthenticate_decrypt_response_frame split: sum.splits if_splits)

lemma decrypt_response_keeps_token_field:
  "decrypt_response lib response w = (Inr r, w') \<Longrightarrow>
   dget r ''auth_token'' = dget response ''auth_token''"
  by (auto simp: decrypt_response_def Let_def dget_dset dget_dpop
        dest: TaxpayerAuthenticate_decrypt_response_token split: sum.splits if_splits)

lemma decrypt_response_without_token:
  "decrypt_response lib response w = (r, w') \<Longrightarrow>
   \<not> truthy (dget response ''auth_token'') \<Longrightarrow> w' = w"
  by (auto simp: decrypt_response_def Let_def split: sum.splits if_splits)

lemma decrypt_response_with_token:
  "decrypt_response lib response w = (Inr r, w') \<Longrightarrow>
   truthy (dget response ''auth_token'') \<Longrightarrow> auth_token w' = dget response ''auth_token''"
  by (auto simp: decrypt_response_def dest: TaxpayerAuthenticate_decrypt_response_token)

lemma handle_error_response_keeps_token_field:
  "handle_error_response lib response w = (Inr r, w') \<Longrightarrow>
   dget r ''auth_token'' = dget response ''auth_token''"
  by (auto simp: handle_error_response_def is_ignored_error_def Let_def dget_dset
        split: option.splits prod.splits sum.splits if_splits pyval.splits)

lemma process_response_frame:
  assumes "process_response lib response w = (r, w')"
  shows "company_gstin w' = company_gstin w \<and> username w' = username w
     \<and> app_key w' = app_key w \<and> after_job w' = after_job w \<and> cache w' = cache w
     \<and> now w' = now w \<and> inbox w' = inbox w \<and> sent w' = sent w"
proof (cases "handle_error_response lib response w")
  case (Pair a w1)
  then have f1: "certificate_frame w w1" by (rule handle_error_response_frame)
  show ?thesis
  proof (cases a)
    case (Inl e)
    with Pair assms have "w' = w1" by (simp add: process_response_def)
    with f1 show ?thesis by (simp add: certificate_frame_def)
  next
    case (Inr r1)
    with Pair assms have "decrypt_response lib r1 w1 = (r, w')" by (simp add: process_response_def)
    then have "session_frame w1 w'" by (rule decrypt_response_frame)
    with f1 show ?thesis by (simp add: certificate_frame_def session_frame_def)
  qed
qed

lemma process_response_without_token:
  assumes "process_response lib response w = (Inr r, w')"
    and "\<not> truthy (dget r ''auth_token'')"
  shows "db w' = db w \<and> auth_token w' = auth_token w \<and> session_key w' = session_key w
     \<and> session_expiry w' = session_expiry w"
proof -
  from assms(1) obtain r1 w1 where
    h: "handle_error_response lib response w = (Inr r1, w1)" and
    d: "decrypt_response lib r1 w1 = (Inr r, w')"
    by (auto simp: process_response_def split: prod.splits sum.splits)
  from d have "dget r ''auth_token'' = dget r1 ''auth_token''"
    by (rule decrypt_response_keeps_token_field)
  with assms(2) d have "w' = w1" by (auto dest: decrypt_response_without_token)
  with handle_error_response_frame [OF h] show ?thesis by (simp add: certificate_frame_def)
qed

lemma process_response_with_token:
  assumes "process_response lib response w = (Inr r, w')"
    and "truthy (dget r ''auth_token'')"
  shows "auth_token w' = dget r ''auth_token''"
proof -
  from assms(1) obtain r1 w1 where
    h: "handle_error_response lib response w = (Inr r1, w1)" and
    d: "decrypt_response lib r1 w1 = (Inr r, w')"
    by (auto simp: process_response_def split: prod.splits sum.splits)
  from d have "dget r ''auth_token'' = dget r1 ''auth_token''"
    by (rule decrypt_response_keeps_token_field)
  with assms(2) d show ?thesis by (auto dest: decrypt_response_with_token)
qed

lemma make_request_cases:
  assumes "make_request lib method endpoint params headers json w = (r, w')"
  obtains (blocked) e where "before_request lib json w = (Inl e, w')" "r = Inl e"
  | (silent) json1 w1 where "before_request lib json w = (Inr json1, w1)" "inbox w1 = []"
      "r = Inl TransportError"
      "w' = w1\<lparr>sent := sent w1 @
              [\<lparr>req_method = method, req_endpoint = endpoint, req_params = params,
                req_headers = headers, req_json = json1\<rparr>]\<rparr>"
  | (answered) json1 w1 response rest where "before_request lib json w = (Inr json1, w1)"
      "inbox w1 = response # rest"
      "process_response lib response
         (w1\<lparr>sent := sent w1 @
              [\<lparr>req_method = method, req_endpoint = endpoint, req_params = params,
                req_headers = headers, req_json = json1\<rparr>], inbox := rest\<rparr>) = (r, w')"
  using assms
  by (auto simp: make_request_def Let_def split: prod.splits sum.splits list.splits)

lemma before_request_frame:
  "before_request lib json w = (r, w') \<Longrightarrow> certificate_frame w w'"
  by (simp add: before_request_def encrypt_request_frame)

lemma make_request_frame:
  assumes "make_request lib method endpoint params headers json w = (r, w')"
  shows "company_gstin w' = company_gstin w \<and> username w' = username w
     \<and> app_key w' = app_key w \<and> after_job w' = after_job w \<and> cache w' = cache w
     \<and> now w' = now w"
  using assms
proof (cases rule: make_request_cases)
  case (blocked e)
  then show ?thesis by (auto dest!: before_request_frame simp: certificate_frame_def)
next
  case (silent json1 w1)
  then show ?thesis by (auto dest!: before_request_frame simp: certificate_frame_def)
next
  case (answered json1 w1 response rest)
  then show ?thesis
    by (auto dest!: before_request_frame process_response_frame simp: certificate_frame_def)
qed

lemma make_request_sent:
  assumes "make_request lib method endpoint params headers json w = (r, w')"
  shows "(\<exists>e. before_request lib json w = (Inl e, w') \<and> r = Inl e \<and> sent w' = sent w)
     \<or> (\<exists>json1 w1. before_request lib json w = (Inr json1, w1)
           \<and> sent w' = sent w @
                [\<lparr>req_method = method, req_endpoint = endpoint, req_params = params,
                  req_headers = headers, req_json = json1\<rparr>])"
  using assms
proof (cases rule: make_request_cases)
  case (blocked e)
  then show ?thesis by (auto dest!: before_request_frame simp: certificate_frame_def)
next
  case (silent json1 w1)
  then show ?thesis by (auto dest!: before_request_frame simp: certificate_frame_def)
next
  case (answered json1 w1 response rest)
  then show ?thesis
    by (auto dest!: before_request_frame process_response_frame simp: certificate_frame_def)
qed

lemma make_request_without_token:
  assumes "make_request lib method endpoint params headers json w = (Inr r, w')"
    and "\<not> truthy (dget r ''auth_token'')"
  shows "db w' = db w \<and> auth_token w' = auth_token w \<and> session_key w' = session_key w
     \<and> session_expiry w' = session_expiry w"
  using assms(1)
proof (cases rule: make_request_cases)
  case (answered json1 w1 response rest)
  from process_response_without_token [OF answered(3) assms(2)] before_request_frame [OF answered(1)]
  show ?thesis by (simp add: certificate_frame_def)
qed simp_all

lemma make_request_with_token:
  assumes "make_request lib method endpoint params headers json w = (Inr r, w')"
    and "truthy (dget r ''auth_token'')"
  shows "auth_token w' = dget r ''auth_token''"
  using assms(1)
proof (cases rule: make_request_cases)
  case (answered json1 w1 response rest)
  from process_response_with_token [OF answered(3) assms(2)] show ?thesis .
qed simp_all

subsection \<open>What an OTP request puts on the wire\<close>

lemma TaxpayerAuthenticate_encrypt_request_keeps_action:
  "TaxpayerAuthenticate_encrypt_request lib (Some j) w = (Inr j1, w1) \<Longrightarrow>
   \<exists>j'. j1 = Some j' \<and> dget j' ''action'' = dget j ''action''"
  by (auto simp: TaxpayerAuthenticate_encrypt_request_def dget_dset
        split: prod.splits sum.splits if_splits)

lemma encrypt_request_keeps_action:
  "encrypt_request lib (Some j) w = (Inr j1, w1) \<Longrightarrow>
   \<exists>j'. j1 = Some j' \<and> dget j' ''action'' = dget j ''action''"
  by (auto simp: encrypt_request_def Let_def dget_dset
        dest!: TaxpayerAuthenticate_encrypt_request_keeps_action
        split: prod.splits sum.splits if_splits option.splits)

lemma request_otp_sent:
  assumes "request_otp lib w = (r, w')"
  shows "sent w' = sent w \<or> (\<exists>q. sent w' = sent w @ [q] \<and> is_otp_request q)"
proof -
  let ?payload = "[(''action'', PStr ''OTPREQUEST''), (''app_key'', PStr (app_key w)),
                   (''username'', PStr (username w))]"
  obtain r1 where m: "make_request lib POST ''authenticate'' [] [] (Some ?payload) w = (r1, w')"
    using assms by (auto simp: request_otp_def split: prod.splits sum.splits if_splits)
  from make_request_sent [OF m] show ?thesis
  proof (elim disjE exE conjE)
    fix json1 w1
    assume b: "before_request lib (Some ?payload) w = (Inr json1, w1)"
      and s: "sent w' = sent w @
                [\<lparr>req_method = POST, req_endpoint = ''authenticate'', req_params = [],
                  req_headers = [], req_json = json1\<rparr>]"
    from b obtain j' where "json1 = Some j'" "dget j' ''action'' = dget ?payload ''action''"
      unfolding before_request_def by (blast dest: encrypt_request_keeps_action)
    then have "is_otp_request \<lparr>req_method = POST, req_endpoint = ''authenticate'', req_params = [],
                  req_headers = [], req_json = json1\<rparr>"
      by (simp add: is_otp_request_def dget_def)
    with s show ?thesis by blast
  qed simp
qed

lemma request_otp_sends:
  assumes "before_request lib (Some [(''action'', PStr ''OTPREQUEST''), (''app_key'', PStr (app_key w)),
                   (''username'', PStr (username w))]) w = (Inr json1, w1)"
  shows "\<exists>q. sent (snd (request_otp lib w)) = sent w @ [q] \<and> is_otp_request q"
proof -
  let ?payload = "[(''action'', PStr ''OTPREQUEST''), (''app_key'', PStr (app_key w)),
                   (''username'', PStr (username w))]"
  obtain r1 w' where m: "make_request lib POST ''authenticate'' [] [] (Some ?payload) w = (r1, w')"
    by (cases "make_request lib POST ''authenticate'' [] [] (Some ?payload) w") auto
  then have w': "snd (request_otp lib w) = w'"
    by (auto simp: request_otp_def split: sum.splits)
  then obtain r where ro: "request_otp lib w = (r, w')"
    by (cases "request_otp lib w") auto
  from make_request_sent [OF m] assms
  have "sent w' \<noteq> sent w" by auto
  with request_otp_sent [OF ro] w' show ?thesis by auto
qed

lemma reauthentication_wire:
  assumes "autheticate_with_otp lib PNone w = (r, w')"
  shows "sent w' = sent w \<or> (\<exists>q. sent w' = sent w @ [q] \<and> is_otp_request q)"
proof (cases "after_job w")
  case None
  let ?w0 = "(db_set_value (credential_filters w) [(''auth_token'', PNone)] w)\<lparr>auth_token := PNone\<rparr>"
  from None assms have "request_otp lib ?w0 = (r, w')"
    by (simp add: autheticate_with_otp_def)
  from request_otp_sent [OF this] show ?thesis by (simp add: db_set_value_def)
next
  case (Some callbacks)
  with assms show ?thesis by (auto simp: autheticate_with_otp_def)
qed

lemma reauthentication_wire_snd:
  "sent (snd (autheticate_with_otp lib PNone w)) = sent w
   \<or> (\<exists>q. sent (snd (autheticate_with_otp lib PNone w)) = sent w @ [q] \<and> is_otp_request q)"
  using reauthentication_wire [of lib w]
  by (cases "autheticate_with_otp lib PNone w") auto

lemma get_auth_token_falsy: "\<not> truthy (get_auth_token w) \<Longrightarrow> get_auth_token w = PNone"
  by (auto simp: get_auth_token_def split: option.splits if_splits)

lemma request_headers_auth_token:
  "dget (request_headers token return_type return_period) ''auth-token'' = token"
  by (simp add: request_headers_def dget_dset Let_def) (simp add: dget_def)

subsection \<open>The concrete collaborators at work\<close>

lemma example_certificate:
  "gstn_public_certificate w = PStr ''CERT'' \<Longrightarrow> now w = 100 \<Longrightarrow>
   get_public_certificate example_lib w = (Inr ''CERT'', w)"
  by (simp add: get_public_certificate_def example_lib_def)

lemma example_otp_payload:
  "gstn_public_certificate w = PStr ''CERT'' \<Longrightarrow> now w = 100 \<Longrightarrow> app_key w = ''K'' \<Longrightarrow>
   before_request example_lib
     (Some [(''action'', PStr ''OTPREQUEST''), (''app_key'', PStr ''K''), (''username'', PStr u)]) w =
   (Inr (Some [(''action'', PStr ''OTPREQUEST''), (''app_key'', PStr ''CERTK''),
               (''username'', PStr u)]), w)"
  by (simp add: before_request_def encrypt_request_def TaxpayerAuthenticate_encrypt_request_def
        example_certificate dget_def dset_def)
    (simp add: example_lib_def)

lemma example_acknowledgement:
  "process_response example_lib [(''status_cd'', PInt 1)] w = (Inr [(''status_cd'', PInt 1)], w)"
  by (simp add: process_response_def handle_error_response_def decrypt_response_def dget_def)

lemma example_session_expired:
  "process_response example_lib
     [(''status_cd'', PInt 0),
      (''error'', PDict [(''message'', PStr ''Session Expired''), (''error_cd'', PStr ''AUTH4038'')])] w
   = (Inr [(''status_cd'', PInt 0),
           (''error'', PDict [(''message'', PStr ''Session Expired''),
                              (''error_cd'', PStr ''AUTH4038'')]),
           (''error_type'', PStr ''authorization_failed''),
           (''gstin'', PStr (company_gstin w))], w)"
  by (simp add: process_response_def handle_error_response_def is_ignored_error_def error_of_def
        IGNORED_ERROR_CODES_def TaxpayerAuthenticate_IGNORED_ERROR_CODES_def
        decrypt_response_def dget_def dset_def Let_def)

lemma example_auth_payload:
  "gstn_public_certificate w = PStr ''CERT'' \<Longrightarrow> now w = 100 \<Longrightarrow> app_key w = ''K'' \<Longrightarrow>
   before_request example_lib
     (Some [(''action'', PStr ''AUTHTOKEN''), (''app_key'', PStr ''K''), (''username'', PStr u),
            (''otp'', PStr p)]) w =
   (Inr (Some [(''action'', PStr ''AUTHTOKEN''), (''app_key'', PStr ''CERTK''),
               (''username'', PStr u), (''otp'', PStr (if p = [] then [] else ''K'' @ p))]), w)"
  by (simp add: before_request_def encrypt_request_def TaxpayerAuthenticate_encrypt_request_def
        example_certificate dget_def dset_def)
    (simp add: example_lib_def)

lemma example_token_response:
  "app_key w = ''K'' \<Longrightarrow> now w = 100 \<Longrightarrow>
   process_response example_lib
     [(''status_cd'', PInt 1), (''auth_token'', PStr ''NEW''), (''expiry'', PInt 360),
      (''sek'', PStr ''KSESSION'')] w
   = (Inr [(''status_cd'', PInt 1), (''auth_token'', PStr ''NEW''), (''expiry'', PInt 360),
           (''sek'', PStr ''KSESSION'')],
      w\<lparr>auth_token := PStr ''NEW'', session_expiry := Some 21700,
        session_key := ''SESSION'',
        db := (db w)(credential_filters w :=
                dupdate (db w (credential_filters w))
                  [(''auth_token'', PStr ''NEW''),
                   (''session_expiry'', PDatetime 21700),
                   (''session_key'', PStr ''SESSION'')]),
        document_cache_clears := Suc (document_cache_clears w)\<rparr>)"
  by (simp add: process_response_def handle_error_response_def decrypt_response_def
        TaxpayerAuthenticate_decrypt_response_def dget_def dset_def Let_def db_set_value_def
        credential_filters_def example_lib_def dupdate_def add_to_date_def datetime_max_def)

subsection \<open>Authentication without an OTP\<close>

text \<open>
  Claim C8. Whenever \<open>autheticate_with_otp\<close> is called without an OTP inside a job,
  nothing is reset inline: the state changes only by \<open>reset_auth_token\<close> being added
  to the job's after-job callbacks (which, when the job runner runs it, clears the
  stored \<open>auth_token\<close>), and \<open>InvalidAuthTokenError\<close> is raised at once. Outside a job
  the stored \<open>auth_token\<close> and the object's token are cleared inline and the call
  continues as \<open>request_otp\<close> on that state, which puts an OTP request on the wire
  as soon as the payload can be encrypted.
\<close>

theorem autheticate_with_otp_without_otp:
  assumes "\<not> truthy otp"
  shows "(\<forall>callbacks. after_job w = Some callbacks \<longrightarrow>
            autheticate_with_otp lib otp w
              = (Inl InvalidAuthTokenError, w\<lparr>after_job := Some (callbacks @ [Reset_auth_token])\<rparr>)
            \<and> (\<forall>w'. credential_filters w' = credential_filters w \<longrightarrow>
                  dget (db (run_callback Reset_auth_token w') (credential_filters w)) ''auth_token''
                    = PNone))
       \<and> (after_job w = None \<longrightarrow>
            (let w0 = (db_set_value (credential_filters w) [(''auth_token'', PNone)] w)
                        \<lparr>auth_token := PNone\<rparr>
             in autheticate_with_otp lib otp w = request_otp lib w0
                \<and> dget (db w0 (credential_filters w)) ''auth_token'' = PNone
                \<and> auth_token w0 = PNone
                \<and> (\<forall>json1 w1.
                      before_request lib
                        (Some [(''action'', PStr ''OTPREQUEST''), (''app_key'', PStr (app_key w)),
                               (''username'', PStr (username w))]) w0 = (Inr json1, w1)
                      \<longrightarrow> (\<exists>q. sent (snd (autheticate_with_otp lib otp w)) = sent w @ [q]
                                \<and> is_otp_request q))))"
proof (intro conjI allI impI)
  fix callbacks assume "after_job w = Some callbacks"
  with assms show "autheticate_with_otp lib otp w
      = (Inl InvalidAuthTokenError, w\<lparr>after_job := Some (callbacks @ [Reset_auth_token])\<rparr>)"
    by (simp add: autheticate_with_otp_def)
next
  fix callbacks w' assume "credential_filters w' = credential_filters w"
  then show "dget (db (run_callback Reset_auth_token w') (credential_filters w)) ''auth_token'' = PNone"
    by (simp add: reset_auth_token_def db_set_value_def Let_def dupdate_def dget_def update_conv')
next
  assume job: "after_job w = None"
  define w0 where "w0 = (db_set_value (credential_filters w) [(''auth_token'', PNone)] w)
                        \<lparr>auth_token := PNone\<rparr>"
  have eq: "autheticate_with_otp lib otp w = request_otp lib w0"
    using assms job by (simp add: autheticate_with_otp_def w0_def)
  have cleared: "dget (db w0 (credential_filters w)) ''auth_token'' = PNone" "auth_token w0 = PNone"
    by (simp_all add: w0_def db_set_value_def dupdate_def dget_def update_conv')
  have same: "app_key w0 = app_key w" "username w0 = username w" "sent w0 = sent w"
    by (simp_all add: w0_def db_set_value_def)
  have wire: "\<exists>q. sent (snd (autheticate_with_otp lib otp w)) = sent w @ [q] \<and> is_otp_request q"
    if "before_request lib
          (Some [(''action'', PStr ''OTPREQUEST''), (''app_key'', PStr (app_key w)),
                 (''username'', PStr (username w))]) w0 = (Inr json1, w1)" for json1 w1
    using request_otp_sends [of lib w0 json1 w1] that unfolding same eq by simp
  show "let w0 = (db_set_value (credential_filters w) [(''auth_token'', PNone)] w)
                        \<lparr>auth_token := PNone\<rparr>
        in autheticate_with_otp lib otp w = request_otp lib w0
                \<and> dget (db w0 (credential_filters w)) ''auth_token'' = PNone
                \<and> auth_token w0 = PNone
                \<and> (\<forall>json1 w1.
                      before_request lib
                        (Some [(''action'', PStr ''OTPREQUEST''), (''app_key'', PStr (app_key w)),
                               (''username'', PStr (username w))]) w0 = (Inr json1, w1)
                      \<longrightarrow> (\<exists>q. sent (snd (autheticate_with_otp lib otp w)) = sent w @ [q]
                                \<and> is_otp_request q))"
    unfolding Let_def w0_def [symmetric] using eq cleared wire by blast
qed

theorem autheticate_with_otp_without_otp_witness:
  "\<not> truthy PNone
   \<and> after_job (example_world\<lparr>after_job := Some []\<rparr>) = Some []
   \<and> autheticate_with_otp example_lib PNone (example_world\<lparr>after_job := Some []\<rparr>)
       = (Inl InvalidAuthTokenError, example_world\<lparr>after_job := Some [Reset_auth_token]\<rparr>)
   \<and> dget (db (run_callback Reset_auth_token
                  (example_world\<lparr>db := (\<lambda>k. [(''auth_token'', PStr ''TOKEN'')])\<rparr>))
              (''24AAUPV7468F1ZW'', ''admin'', ''Returns'')) ''auth_token'' = PNone
   \<and> after_job example_world = None
   \<and> (\<exists>q. sent (snd (autheticate_with_otp example_lib PNone example_world)) = [q]
          \<and> is_otp_request q)"
proof -
  let ?J = "example_world\<lparr>after_job := Some []\<rparr>"
  let ?D = "example_world\<lparr>db := (\<lambda>k. [(''auth_token'', PStr ''TOKEN'')])\<rparr>"
  have none: "\<not> truthy PNone" by simp
  have key: "credential_filters ?J = (''24AAUPV7468F1ZW'', ''admin'', ''Returns'')"
    "credential_filters ?D = credential_filters ?J"
    by (simp_all add: credential_filters_def example_world_def)
  from autheticate_with_otp_without_otp [OF none, of ?J example_lib]
  have job: "autheticate_with_otp example_lib PNone ?J
       = (Inl InvalidAuthTokenError, example_world\<lparr>after_job := Some [Reset_auth_token]\<rparr>)"
    and run: "dget (db (run_callback Reset_auth_token ?D)
              (''24AAUPV7468F1ZW'', ''admin'', ''Returns'')) ''auth_token'' = PNone"
    using key by (simp_all add: example_world_def)
  let ?W0 = "(db_set_value (credential_filters example_world) [(''auth_token'', PNone)] example_world)
               \<lparr>auth_token := PNone\<rparr>"
  have w0: "gstn_public_certificate ?W0 = PStr ''CERT''" "now ?W0 = 100" "app_key ?W0 = ''K''"
    by (simp_all add: db_set_value_def example_world_def)
  have fields: "after_job example_world = None" "app_key example_world = ''K''"
    "sent example_world = []"
    by (simp_all add: example_world_def)
  from autheticate_with_otp_without_otp [OF none, of example_world example_lib] fields(1)
  have imp: "before_request example_lib
        (Some [(''action'', PStr ''OTPREQUEST''), (''app_key'', PStr (app_key example_world)),
               (''username'', PStr (username example_world))]) ?W0 = (Inr json1, w1)
      \<Longrightarrow> \<exists>q. sent (snd (autheticate_with_otp example_lib PNone example_world))
                 = sent example_world @ [q] \<and> is_otp_request q" for json1 w1
    unfolding Let_def by blast
  have out: "\<exists>q. sent (snd (autheticate_with_otp example_lib PNone example_world)) = [q]
          \<and> is_otp_request q"
    using imp example_otp_payload [OF w0, of "username example_world"]
    unfolding fields by simp
  from none job run fields(1) out show ?thesis by simp
qed

subsection \<open>Requesting an OTP\<close>

text \<open>
  Claim C6. When the gateway acknowledges the OTP request (the transport returns a
  response with \<open>status_cd == 1\<close> that issues no \<open>auth_token\<close>), \<open>request_otp\<close> raises
  \<open>OTPRequestedError\<close> with an outcome whose \<open>error_type\<close> is \<open>otp_requested\<close> and whose
  \<open>gstin\<close> is the gstin the API object was set up with; through \<open>otp_handler\<close> the
  caller gets that outcome as a normal return value; and the credential table and
  the object's token are as before, so no \<open>auth_token\<close> is persisted.
\<close>

theorem request_otp_otp_required:
  assumes "make_request lib POST ''authenticate'' [] []
             (Some [(''action'', PStr ''OTPREQUEST''), (''app_key'', PStr (app_key w)),
                    (''username'', PStr (username w))]) w = (Inr response, w1)"
    and "dget response ''status_cd'' = PInt 1"
    and "\<not> truthy (dget response ''auth_token'')"
  shows "\<exists>outcome. request_otp lib w = (Inl (OTPRequestedError outcome), w1)
           \<and> otp_handler (request_otp lib) w = (Inr (Some outcome), w1)
           \<and> dget outcome ''error_type'' = PStr ''otp_requested''
           \<and> dget outcome ''gstin'' = PStr (company_gstin w)
           \<and> db w1 = db w \<and> auth_token w1 = auth_token w"
proof -
  let ?outcome = "dupdate response [(''error_type'', PStr ''otp_requested''),
                                    (''gstin'', PStr (company_gstin w1))]"
  have r: "request_otp lib w = (Inl (OTPRequestedError ?outcome), w1)"
    using assms(1,2) by (simp add: request_otp_def)
  then have h: "otp_handler (request_otp lib) w = (Inr (Some ?outcome), w1)"
    by (simp add: otp_handler_def)
  have g: "company_gstin w1 = company_gstin w"
    using make_request_frame [OF assms(1)] by simp
  have f: "dget ?outcome ''error_type'' = PStr ''otp_requested''"
    "dget ?outcome ''gstin'' = PStr (company_gstin w)"
    by (simp_all add: dupdate_def dget_def update_conv' g)
  from make_request_without_token [OF assms(1,3)] r h f show ?thesis by blast
qed

theorem request_otp_otp_required_witness:
  "make_request example_lib POST ''authenticate'' [] []
     (Some [(''action'', PStr ''OTPREQUEST''), (''app_key'', PStr ''K''),
            (''username'', PStr ''admin'')])
     (example_world\<lparr>auth_token := PNone, session_expiry := None,
                    inbox := [[(''status_cd'', PInt 1)]]\<rparr>)
   = (Inr [(''status_cd'', PInt 1)],
      example_world\<lparr>auth_token := PNone, session_expiry := None, inbox := [],
        sent := [\<lparr>req_method = POST, req_endpoint = ''authenticate'', req_params = [],
                  req_headers = [],
                  req_json = Some [(''action'', PStr ''OTPREQUEST''), (''app_key'', PStr ''CERTK''),
                                   (''username'', PStr ''admin'')]\<rparr>]\<rparr>)
   \<and> dget [(''status_cd'', PInt 1)] ''status_cd'' = PInt 1
   \<and> \<not> truthy (dget [(''status_cd'', PInt 1)] ''auth_token'')
   \<and> (\<exists>outcome.
        otp_handler (request_otp example_lib)
          (example_world\<lparr>auth_token := PNone, session_expiry := None,
                         inbox := [[(''status_cd'', PInt 1)]]\<rparr>)
        = (Inr (Some outcome),
           example_world\<lparr>auth_token := PNone, session_expiry := None, inbox := [],
             sent := [\<lparr>req_method = POST, req_endpoint = ''authenticate'', req_params = [],
                       req_headers = [],
                       req_json = Some [(''action'', PStr ''OTPREQUEST''),
                                        (''app_key'', PStr ''CERTK''),
                                        (''username'', PStr ''admin'')]\<rparr>]\<rparr>)
        \<and> dget outcome ''error_type'' = PStr ''otp_requested''
        \<and> dget outcome ''gstin'' = PStr ''24AAUPV7468F1ZW'')"
proof -
  let ?W = "example_world\<lparr>auth_token := PNone, session_expiry := None,
                          inbox := [[(''status_cd'', PInt 1)]]\<rparr>"
  let ?W1 = "example_world\<lparr>auth_token := PNone, session_expiry := None, inbox := [],
        sent := [\<lparr>req_method = POST, req_endpoint = ''authenticate'', req_params = [],
                  req_headers = [],
                  req_json = Some [(''action'', PStr ''OTPREQUEST''), (''app_key'', PStr ''CERTK''),
                                   (''username'', PStr ''admin'')]\<rparr>]\<rparr>"
  have fields: "app_key ?W = ''K''" "username ?W = ''admin''"
    "company_gstin ?W = ''24AAUPV7468F1ZW''" "gstn_public_certificate ?W = PStr ''CERT''"
    "now ?W = 100"
    by (simp_all add: example_world_def)
  have m: "make_request example_lib POST ''authenticate'' [] []
             (Some [(''action'', PStr ''OTPREQUEST''), (''app_key'', PStr (app_key ?W)),
                    (''username'', PStr (username ?W))]) ?W
           = (Inr [(''status_cd'', PInt 1)], ?W1)"
    unfolding fields(1,2)
    by (simp add: make_request_def example_otp_payload [OF fields(4,5,1)] example_acknowledgement)
      (simp add: example_world_def)
  from request_otp_otp_required [OF m] fields(3) m show ?thesis
    unfolding fields(1,2) by (auto simp: dget_def)
qed

subsection \<open>An authorization failure is answered by one re-authentication\<close>

text \<open>
  Claim C1. Take a call of \<open>_request\<close> (\<open>get\<close>, \<open>post\<close> or \<open>put\<close>) that reaches its
  business request, either directly with a valid token and no OTP, or after an
  in-line authentication that did not end in \<open>otp_requested\<close> or \<open>invalid_otp\<close>. If the
  transport returns a response classified \<open>authorization_failed\<close>, the call's
  result is that of one call of \<open>autheticate_with_otp\<close> without an OTP. The business
  request went out exactly once, and the re-authentication puts nothing on the
  wire but at most one OTP request: the business request is not sent again.
\<close>

theorem request_authorization_failed_reauthenticates_once:
  assumes pre: "(truthy (get_auth_token w) \<and> \<not> truthy otp \<and> w1 = w)
       \<or> ((\<not> truthy (get_auth_token w) \<or> truthy otp)
           \<and> (\<exists>r. autheticate_with_otp lib otp w = (Inr (Some r), w1)
                 \<and> dget r ''error_type'' \<noteq> PStr ''otp_requested''
                 \<and> dget r ''error_type'' \<noteq> PStr ''invalid_otp''))"
    and biz: "make_request lib method endpoint (request_params action params)
                (request_headers (get_auth_token w) return_type return_period) json w1
              = (Inr response, w2)"
    and af: "dget response ''error_type'' = PStr ''authorization_failed''"
  shows "request lib method action return_type return_period params endpoint json otp w
           = autheticate_with_otp lib PNone w2
       \<and> (\<exists>json1. sent w2 = sent w1 @
              [\<lparr>req_method = method, req_endpoint = endpoint,
                req_params = request_params action params,
                req_headers = request_headers (get_auth_token w) return_type return_period,
                req_json = json1\<rparr>])
       \<and> (sent (snd (autheticate_with_otp lib PNone w2)) = sent w2
          \<or> (\<exists>q. sent (snd (autheticate_with_otp lib PNone w2)) = sent w2 @ [q]
                \<and> is_otp_request q))"
proof (intro conjI)
  from pre show "request lib method action return_type return_period params endpoint json otp w
           = autheticate_with_otp lib PNone w2"
  proof
    assume "truthy (get_auth_token w) \<and> \<not> truthy otp \<and> w1 = w"
    with biz af show ?thesis by (simp add: request_def Let_def)
  next
    assume "(\<not> truthy (get_auth_token w) \<or> truthy otp)
           \<and> (\<exists>r. autheticate_with_otp lib otp w = (Inr (Some r), w1)
                 \<and> dget r ''error_type'' \<noteq> PStr ''otp_requested''
                 \<and> dget r ''error_type'' \<noteq> PStr ''invalid_otp'')"
    then obtain r where "\<not> truthy (get_auth_token w) \<or> truthy otp"
      "autheticate_with_otp lib otp w = (Inr (Some r), w1)"
      "dget r ''error_type'' \<noteq> PStr ''otp_requested''"
      "dget r ''error_type'' \<noteq> PStr ''invalid_otp''" by blast
    with biz af show ?thesis by (simp add: request_def Let_def)
  qed
next
  from make_request_sent [OF biz]
  show "\<exists>json1. sent w2 = sent w1 @
              [\<lparr>req_method = method, req_endpoint = endpoint,
                req_params = request_params action params,
                req_headers = request_headers (get_auth_token w) return_type return_period,
                req_json = json1\<rparr>]"
    by auto
next
  show "sent (snd (autheticate_with_otp lib PNone w2)) = sent w2
          \<or> (\<exists>q. sent (snd (autheticate_with_otp lib PNone w2)) = sent w2 @ [q]
                \<and> is_otp_request q)"
    by (rule reauthentication_wire_snd)
qed

theorem request_authorization_failed_reauthenticates_once_witness:
  "truthy (get_auth_token
      (example_world\<lparr>inbox :=
         [[(''status_cd'', PInt 0),
           (''error'', PDict [(''message'', PStr ''Session Expired''),
                              (''error_cd'', PStr ''AUTH4038'')])],
          [(''status_cd'', PInt 1)]]\<rparr>))
   \<and> \<not> truthy PNone
   \<and> fst (request example_lib GET (PStr ''GETPREF'') PNone PNone
             (Some [(''gstin'', PStr ''24AAUPV7468F1ZW'')]) ''returns'' None PNone
             (example_world\<lparr>inbox :=
                [[(''status_cd'', PInt 0),
                  (''error'', PDict [(''message'', PStr ''Session Expired''),
                                     (''error_cd'', PStr ''AUTH4038'')])],
                 [(''status_cd'', PInt 1)]]\<rparr>))
       = Inl (OTPRequestedError
               [(''status_cd'', PInt 1), (''error_type'', PStr ''otp_requested''),
                (''gstin'', PStr ''24AAUPV7468F1ZW'')])
   \<and> map req_endpoint (sent (snd (request example_lib GET (PStr ''GETPREF'') PNone PNone
             (Some [(''gstin'', PStr ''24AAUPV7468F1ZW'')]) ''returns'' None PNone
             (example_world\<lparr>inbox :=
                [[(''status_cd'', PInt 0),
                  (''error'', PDict [(''message'', PStr ''Session Expired''),
                                     (''error_cd'', PStr ''AUTH4038'')])],
                 [(''status_cd'', PInt 1)]]\<rparr>))))
       = [''returns'', ''authenticate'']"
proof -
  let ?E = "[(''status_cd'', PInt 0),
             (''error'', PDict [(''message'', PStr ''Session Expired''),
                                (''error_cd'', PStr ''AUTH4038'')])]"
  let ?W = "example_world\<lparr>inbox := [?E, [(''status_cd'', PInt 1)]]\<rparr>"
  let ?R = "[(''status_cd'', PInt 0),
             (''error'', PDict [(''message'', PStr ''Session Expired''),
                                (''error_cd'', PStr ''AUTH4038'')]),
             (''error_type'', PStr ''authorization_failed''),
             (''gstin'', PStr ''24AAUPV7468F1ZW'')]"
  let ?q = "\<lparr>req_method = GET, req_endpoint = ''returns'',
             req_params = request_params (PStr ''GETPREF'') (Some [(''gstin'', PStr ''24AAUPV7468F1ZW'')]),
             req_headers = request_headers (get_auth_token ?W) PNone PNone, req_json = None\<rparr>"
  let ?W2 = "?W\<lparr>sent := [?q], inbox := [[(''status_cd'', PInt 1)]]\<rparr>"
  have tok: "truthy (get_auth_token ?W)" and none: "\<not> truthy PNone"
    by (simp_all add: get_auth_token_def example_world_def)
  have pre: "(truthy (get_auth_token ?W) \<and> \<not> truthy PNone \<and> ?W = ?W)
       \<or> ((\<not> truthy (get_auth_token ?W) \<or> truthy PNone)
           \<and> (\<exists>r. autheticate_with_otp example_lib PNone ?W = (Inr (Some r), ?W)
                 \<and> dget r ''error_type'' \<noteq> PStr ''otp_requested''
                 \<and> dget r ''error_type'' \<noteq> PStr ''invalid_otp''))"
    using tok by simp
  have biz: "make_request example_lib GET ''returns''
               (request_params (PStr ''GETPREF'') (Some [(''gstin'', PStr ''24AAUPV7468F1ZW'')]))
               (request_headers (get_auth_token ?W) PNone PNone) None ?W = (Inr ?R, ?W2)"
    by (simp add: make_request_def before_request_def encrypt_request_def Let_def
          example_session_expired)
       (simp add: example_world_def)
  have af: "dget ?R ''error_type'' = PStr ''authorization_failed''"
    by (simp add: dget_def)
  define W0 where "W0 = (db_set_value (credential_filters ?W2) [(''auth_token'', PNone)] ?W2)
               \<lparr>auth_token := PNone\<rparr>"
  have w0: "gstn_public_certificate W0 = PStr ''CERT''" "now W0 = 100" "app_key W0 = ''K''"
    and w0': "username W0 = ''admin''" "company_gstin W0 = ''24AAUPV7468F1ZW''"
    "inbox W0 = [[(''status_cd'', PInt 1)]]" "map req_endpoint (sent W0) = [''returns'']"
    by (simp_all add: W0_def db_set_value_def example_world_def)
  have job: "after_job ?W2 = None" by (simp add: example_world_def)
  have step: "autheticate_with_otp example_lib PNone ?W2 = request_otp example_lib W0"
    unfolding W0_def by (simp only: autheticate_with_otp_def job truthy.simps) simp
  have otp: "request_otp example_lib W0
       = (Inl (OTPRequestedError
               [(''status_cd'', PInt 1), (''error_type'', PStr ''otp_requested''),
                (''gstin'', PStr ''24AAUPV7468F1ZW'')]),
          W0\<lparr>sent := sent W0 @
                 [\<lparr>req_method = POST, req_endpoint = ''authenticate'', req_params = [],
                   req_headers = [],
                   req_json = Some [(''action'', PStr ''OTPREQUEST''), (''app_key'', PStr ''CERTK''),
                                    (''username'', PStr ''admin'')]\<rparr>],
               inbox := []\<rparr>)"
    by (simp add: request_otp_def make_request_def w0 w0' example_otp_payload [OF w0]
          example_acknowledgement Let_def dget_def dupdate_def)
  have reauth: "fst (autheticate_with_otp example_lib PNone ?W2)
       = Inl (OTPRequestedError
               [(''status_cd'', PInt 1), (''error_type'', PStr ''otp_requested''),
                (''gstin'', PStr ''24AAUPV7468F1ZW'')])"
    "map req_endpoint (sent (snd (autheticate_with_otp example_lib PNone ?W2)))
       = [''returns'', ''authenticate'']"
    unfolding step otp by (simp_all add: w0')
  from request_authorization_failed_reauthenticates_once [OF pre biz af] reauth tok none
  show ?thesis by simp
qed

subsection \<open>After an in-line OTP login the request carries the old token\<close>

text \<open>
  Claim C10. Take a call of \<open>_request\<close> with no valid token and an OTP whose in-line
  authentication succeeds (it returns a response that is neither \<open>otp_requested\<close> nor
  \<open>invalid_otp\<close>). The call goes on with the business request built from the token
  resolved before the authentication: its \<open>auth-token\<close> header is \<open>None\<close>, also when the
  authentication response issued a token and the object now holds it; whenever the
  payload can be encrypted, the request logged on the wire carries these headers.
\<close>

theorem request_after_otp_login_sends_stale_token:
  assumes no_token: "\<not> truthy (get_auth_token w)"
    and otp: "truthy otp"
    and auth: "autheticate_with_otp lib otp w = (Inr (Some r), w1)"
    and ok: "dget r ''error_type'' \<noteq> PStr ''otp_requested''"
            "dget r ''error_type'' \<noteq> PStr ''invalid_otp''"
  shows "request lib method action return_type return_period params endpoint json otp w
           = (case make_request lib method endpoint (request_params action params)
                     (request_headers PNone return_type return_period) json w1 of
                (Inl e, w2) \<Rightarrow> (Inl e, w2)
              | (Inr response, w2) \<Rightarrow>
                  if dget response ''error_type'' = PStr ''authorization_failed''
                  then autheticate_with_otp lib PNone w2
                  else (Inr (Some response), w2))
       \<and> dget (request_headers PNone return_type return_period) ''auth-token'' = PNone
       \<and> (truthy (dget r ''auth_token'') \<longrightarrow>
            auth_token w1 = dget r ''auth_token'' \<and> auth_token w1 \<noteq> PNone)
       \<and> (\<forall>json1 wb. before_request lib json w1 = (Inr json1, wb) \<longrightarrow>
            (\<exists>rest. sent (snd (request lib method action return_type return_period params
                                  endpoint json otp w))
               = sent w1 @
                   \<lparr>req_method = method, req_endpoint = endpoint,
                     req_params = request_params action params,
                     req_headers = request_headers PNone return_type return_period,
                     req_json = json1\<rparr> # rest))"
proof (intro conjI allI impI)
  let ?business = "make_request lib method endpoint (request_params action params)
                     (request_headers PNone return_type return_period) json w1"
  have tok: "get_auth_token w = PNone" using no_token by (rule get_auth_token_falsy)
  show eq: "request lib method action return_type return_period params endpoint json otp w
           = (case ?business of
                (Inl e, w2) \<Rightarrow> (Inl e, w2)
              | (Inr response, w2) \<Rightarrow>
                  if dget response ''error_type'' = PStr ''authorization_failed''
                  then autheticate_with_otp lib PNone w2
                  else (Inr (Some response), w2))"
    using otp auth ok by (simp add: request_def Let_def tok)
  show "dget (request_headers PNone return_type return_period) ''auth-token'' = PNone"
    by (rule request_headers_auth_token)
  {
    assume t: "truthy (dget r ''auth_token'')"
    from auth otp obtain wm where
      m: "make_request lib POST ''authenticate'' [] []
            (Some [(''action'', PStr ''AUTHTOKEN''), (''app_key'', PStr (app_key w)),
                   (''username'', PStr (username w)), (''otp'', otp)]) w = (Inr r, wm)"
      and w1: "auth_token w1 = auth_token wm"
      by (auto simp: autheticate_with_otp_def split: prod.splits sum.splits)
    from make_request_with_token [OF m t] w1 have "auth_token w1 = dget r ''auth_token''" by simp
    with t show "auth_token w1 = dget r ''auth_token''" and "auth_token w1 \<noteq> PNone" by auto
  }
  fix json1 wb
  assume b: "before_request lib json w1 = (Inr json1, wb)"
  let ?q = "\<lparr>req_method = method, req_endpoint = endpoint,
                     req_params = request_params action params,
                     req_headers = request_headers PNone return_type return_period,
                     req_json = json1\<rparr>"
  obtain res w2 where biz: "?business = (res, w2)" by (cases ?business) auto
  from make_request_sent [OF biz] b have s2: "sent w2 = sent w1 @ [?q]" by auto
  show "\<exists>rest. sent (snd (request lib method action return_type return_period params
                                  endpoint json otp w)) = sent w1 @ ?q # rest"
  proof (cases "\<exists>response. res = Inr response
                  \<and> dget response ''error_type'' = PStr ''authorization_failed''")
    case True
    then have "snd (request lib method action return_type return_period params
                                  endpoint json otp w) = snd (autheticate_with_otp lib PNone w2)"
      unfolding eq biz by auto
    with reauthentication_wire_snd [of lib w2] s2 show ?thesis by auto
  next
    case False
    then have "snd (request lib method action return_type return_period params
                                  endpoint json otp w) = w2"
      unfolding eq biz by (cases res) auto
    with s2 show ?thesis by auto
  qed
qed

theorem request_after_otp_login_sends_stale_token_witness:
  "\<not> truthy (get_auth_token
       (example_world\<lparr>auth_token := PNone, session_expiry := None,
          inbox := [[(''status_cd'', PInt 1), (''auth_token'', PStr ''NEW''),
                     (''expiry'', PInt 360), (''sek'', PStr ''KSESSION'')],
                    [(''status_cd'', PInt 1)]]\<rparr>))
   \<and> truthy (PStr ''123456'')
   \<and> fst (autheticate_with_otp example_lib (PStr ''123456'')
       (example_world\<lparr>auth_token := PNone, session_expiry := None,
          inbox := [[(''status_cd'', PInt 1), (''auth_token'', PStr ''NEW''),
                     (''expiry'', PInt 360), (''sek'', PStr ''KSESSION'')],
                    [(''status_cd'', PInt 1)]]\<rparr>))
       = Inr (Some [(''status_cd'', PInt 1), (''auth_token'', PStr ''NEW''),
                    (''expiry'', PInt 360), (''sek'', PStr ''KSESSION'')])
   \<and> auth_token (snd (autheticate_with_otp example_lib (PStr ''123456'')
       (example_world\<lparr>auth_token := PNone, session_expiry := None,
          inbox := [[(''status_cd'', PInt 1), (''auth_token'', PStr ''NEW''),
                     (''expiry'', PInt 360), (''sek'', PStr ''KSESSION'')],
                    [(''status_cd'', PInt 1)]]\<rparr>)))
       = PStr ''NEW''
   \<and> map req_headers (sent (snd (request example_lib GET (PStr ''GETPREF'') PNone PNone
         (Some [(''gstin'', PStr ''24AAUPV7468F1ZW'')]) ''returns'' None (PStr ''123456'')
         (example_world\<lparr>auth_token := PNone, session_expiry := None,
            inbox := [[(''status_cd'', PInt 1), (''auth_token'', PStr ''NEW''),
                       (''expiry'', PInt 360), (''sek'', PStr ''KSESSION'')],
                      [(''status_cd'', PInt 1)]]\<rparr>))))
       = [[], [(''auth-token'', PNone)]]"
proof -
  let ?A = "[(''status_cd'', PInt 1), (''auth_token'', PStr ''NEW''),
             (''expiry'', PInt 360), (''sek'', PStr ''KSESSION'')]"
  define W where "W = example_world\<lparr>auth_token := PNone, session_expiry := None,
          inbox := [?A, [(''status_cd'', PInt 1)]]\<rparr>"
  have w: "gstn_public_certificate W = PStr ''CERT''" "now W = 100" "app_key W = ''K''"
    and w': "username W = ''admin''" "company_gstin W = ''24AAUPV7468F1ZW''"
    "inbox W = [?A, [(''status_cd'', PInt 1)]]" "sent W = []" "auth_token W = PNone"
    by (simp_all add: W_def example_world_def)
  have no_token: "\<not> truthy (get_auth_token W)"
    by (simp add: get_auth_token_def w')
  have otp: "truthy (PStr ''123456'')" by simp
  obtain W1 where auth: "autheticate_with_otp example_lib (PStr ''123456'') W = (Inr (Some ?A), W1)"
    and w1: "auth_token W1 = PStr ''NEW''" "inbox W1 = [[(''status_cd'', PInt 1)]]"
      "map req_headers (sent W1) = [[]]"
    by (simp add: autheticate_with_otp_def make_request_def w w' Let_def
          example_auth_payload [OF w] example_token_response)
  have ok: "dget ?A ''error_type'' \<noteq> PStr ''otp_requested''"
    "dget ?A ''error_type'' \<noteq> PStr ''invalid_otp''"
    by (simp_all add: dget_def)
  let ?call = "request example_lib GET (PStr ''GETPREF'') PNone PNone
         (Some [(''gstin'', PStr ''24AAUPV7468F1ZW'')]) ''returns'' None (PStr ''123456'') W"
  have hdr: "request_headers PNone PNone PNone = [(''auth-token'', PNone)]"
    by (simp add: request_headers_def)
  have biz: "make_request example_lib GET ''returns''
               (request_params (PStr ''GETPREF'') (Some [(''gstin'', PStr ''24AAUPV7468F1ZW'')]))
               (request_headers PNone PNone PNone) None W1
             = (Inr [(''status_cd'', PInt 1)],
                W1\<lparr>sent := sent W1 @
                     [\<lparr>req_method = GET, req_endpoint = ''returns'',
                       req_params = request_params (PStr ''GETPREF'')
                                      (Some [(''gstin'', PStr ''24AAUPV7468F1ZW'')]),
                       req_headers = request_headers PNone PNone PNone, req_json = None\<rparr>],
                  inbox := []\<rparr>)"
    by (simp add: make_request_def before_request_def encrypt_request_def Let_def w1
          example_acknowledgement)
  from request_after_otp_login_sends_stale_token [OF no_token otp auth ok,
        of GET "PStr ''GETPREF''" PNone PNone "Some [(''gstin'', PStr ''24AAUPV7468F1ZW'')]"
           "''returns''" None]
  have "?call = (Inr (Some [(''status_cd'', PInt 1)]),
                W1\<lparr>sent := sent W1 @
                     [\<lparr>req_method = GET, req_endpoint = ''returns'',
                       req_params = request_params (PStr ''GETPREF'')
                                      (Some [(''gstin'', PStr ''24AAUPV7468F1ZW'')]),
                       req_headers = request_headers PNone PNone PNone, req_json = None\<rparr>],
                  inbox := []\<rparr>)"
    unfolding biz by (simp add: dget_def)
  then have "map req_headers (sent (snd ?call)) = [[], [(''auth-token'', PNone)]]"
    by (simp add: w1 hdr)
  with no_token otp auth w1(1) show ?thesis unfolding W_def by simp
qed

end
